theory Spec2Isabelle
  imports Complex_Main
begin

section \<open>JavaScript values used by the soil analyzer\<close>

text \<open>
  The measured inputs of the analyzer are finite numbers; they are modelled as reals, so
  the arithmetic below is the exact arithmetic that the double-precision operations of
  the script approximate.  The one non-real number that the script can produce from such
  inputs is \<open>NaN\<close>: it arises when a property that does not exist is read (the value
  \<open>undefined\<close>) and then used as a number.  A JavaScript number is therefore a real or
  \<open>NaN\<close>.

  Exact arithmetic is an idealisation of the doubles in two respects.  A double result
  can differ from the exact one in its last place, which decides a comparison at the very
  edge of a band and the direction of a rounding at a tie.  And a double product beyond
  about \<open>1.8e308\<close> overflows to \<open>Infinity\<close>, from which \<open>Infinity * 0\<close> gives \<open>NaN\<close>;
  no real does that.  The statements about ranges below are therefore made for
  measurements of a bounded magnitude.
\<close>

datatype jsnum = Num real | NaN

text \<open>Arithmetic with a \<open>NaN\<close> operand gives \<open>NaN\<close>.\<close>

fun js_lift :: "(real \<Rightarrow> real) \<Rightarrow> jsnum \<Rightarrow> jsnum" where
  "js_lift f (Num a) = Num (f a)"
| "js_lift f NaN = NaN"

fun js_lift2 :: "(real \<Rightarrow> real \<Rightarrow> real) \<Rightarrow> jsnum \<Rightarrow> jsnum \<Rightarrow> jsnum" where
  "js_lift2 f (Num a) (Num b) = Num (f a b)"
| "js_lift2 f _ _ = NaN"

definition js_add :: "jsnum \<Rightarrow> jsnum \<Rightarrow> jsnum" where
  "js_add = js_lift2 (+)"

definition js_sub :: "jsnum \<Rightarrow> jsnum \<Rightarrow> jsnum" where
  "js_sub = js_lift2 (-)"

definition js_mul :: "jsnum \<Rightarrow> jsnum \<Rightarrow> jsnum" where
  "js_mul = js_lift2 (*)"

text \<open>Division is only ever by one of the literals 2, 3 and 10.\<close>

definition js_div_lit :: "jsnum \<Rightarrow> real \<Rightarrow> jsnum" where
  "js_div_lit a c = js_lift (\<lambda>x. x / c) a"

definition Math_min :: "jsnum \<Rightarrow> jsnum \<Rightarrow> jsnum" where
  "Math_min = js_lift2 min"

definition Math_max :: "jsnum \<Rightarrow> jsnum \<Rightarrow> jsnum" where
  "Math_max = js_lift2 max"

definition Math_abs :: "jsnum \<Rightarrow> jsnum" where
  "Math_abs = js_lift abs"

text \<open>
  \<open>Math.round\<close> gives the nearest integer, a tie going to the larger one: it is
  \<open>\<lfloor>x + 1/2\<rfloor>\<close>.
\<close>

definition round_half_up :: "real \<Rightarrow> real" where
  "round_half_up x = of_int \<lfloor>x + 1 / 2\<rfloor>"

definition Math_round :: "jsnum \<Rightarrow> jsnum" where
  "Math_round = js_lift round_half_up"

text \<open>Every comparison with a \<open>NaN\<close> operand is false.\<close>

fun js_lt :: "jsnum \<Rightarrow> jsnum \<Rightarrow> bool" where
  "js_lt (Num a) (Num b) = (a < b)"
| "js_lt _ _ = False"

fun js_gt :: "jsnum \<Rightarrow> jsnum \<Rightarrow> bool" where
  "js_gt (Num a) (Num b) = (a > b)"
| "js_gt _ _ = False"

fun js_le :: "jsnum \<Rightarrow> jsnum \<Rightarrow> bool" where
  "js_le (Num a) (Num b) = (a \<le> b)"
| "js_le _ _ = False"

fun js_ge :: "jsnum \<Rightarrow> jsnum \<Rightarrow> bool" where
  "js_ge (Num a) (Num b) = (a \<ge> b)"
| "js_ge _ _ = False"

subsection \<open>Property lookup on an object literal\<close>

text \<open>
  The lookup tables of the script are object literals indexed by a string,
  \<open>table[key]\<close>.  Such a read first looks among the object's own properties and then
  among those of its prototype, \<open>Object.prototype\<close>, whose members are the functions
  below and the accessor \<open>__proto__\<close>: all of them are truthy values without the
  fields that the script's own entries have.  A key found in neither place reads as
  \<open>undefined\<close>.
\<close>

definition Object_prototype_keys :: "string list" where
  "Object_prototype_keys =
     [''constructor'', ''hasOwnProperty'', ''isPrototypeOf'', ''propertyIsEnumerable'',
      ''toLocaleString'', ''toString'', ''valueOf'', ''__proto__'',
      ''__defineGetter__'', ''__defineSetter__'', ''__lookupGetter__'',
      ''__lookupSetter__'']"

datatype 'a property = Own 'a | Inherited | Undefined

definition get_property :: "(string \<times> 'a) list \<Rightarrow> string \<Rightarrow> 'a property" where
  "get_property table key =
     (case map_of table key of
        Some v \<Rightarrow> Own v
      | None \<Rightarrow> if key \<in> set Object_prototype_keys then Inherited else Undefined)"

subsection \<open>The random source\<close>

text \<open>
  \<open>Math.random()\<close> is the only state shared between calls.  The source is the sequence
  of the draws still to come; a draw returns the first one and leaves the rest.  Every
  draw of \<open>Math.random\<close> lies in \<open>[0, 1)\<close>.
\<close>

type_synonym rng = "nat \<Rightarrow> real"

definition Math_random :: "rng \<Rightarrow> real \<times> rng" where
  "Math_random g = (g 0, (\<lambda>i. g (Suc i)))"

definition unit_draws :: "rng \<Rightarrow> bool" where
  "unit_draws g = (\<forall>i. 0 \<le> g i \<and> g i < 1)"

definition constant_rng :: "real \<Rightarrow> rng" where
  "constant_rng r = (\<lambda>i. r)"

text \<open>The source whose draws are \<open>r\<close> except for draw number \<open>k\<close>, which is \<open>s\<close>.\<close>

definition rng_with :: "real \<Rightarrow> nat \<Rightarrow> real \<Rightarrow> rng" where
  "rng_with r k s = (\<lambda>i. if i = k then s else r)"

section \<open>Data model\<close>

record soil_data =
  pH :: real
  temperature :: real
  moisture :: real
  ec :: real
  organicCarbon :: real
  soilType :: string

text \<open>The object \<open>{ nitrogen, phosphorus, potassium }\<close> handed to the assessors.\<close>

record nutrients =
  nitrogen :: jsnum
  phosphorus :: jsnum
  potassium :: jsnum

record recommendation =
  rec_type :: string
  action :: string
  priority :: string

text \<open>The object returned by \<open>generatePredictions\<close>.\<close>

record prediction =
  out_nitrogen :: jsnum
  out_phosphorus :: jsnum
  out_potassium :: jsnum
  soilHealth :: jsnum
  fertilityIndex :: jsnum
  riskAssessment :: string
  cropSuitability :: string
  confidence :: jsnum
  recommendations :: "recommendation list"

section \<open>Parameter status (\<open>getParameterStatus\<close>)\<close>

record band =
  low :: real
  optimal :: real
  high :: real

definition ranges :: "(string \<times> band) list" where
  "ranges =
     [(''pH'', \<lparr>low = 5.5, optimal = 7.0, high = 8.5\<rparr>),
      (''temperature'', \<lparr>low = 18, optimal = 25, high = 30\<rparr>),
      (''moisture'', \<lparr>low = 30, optimal = 50, high = 70\<rparr>),
      (''ec'', \<lparr>low = 0.5, optimal = 1.2, high = 2.0\<rparr>),
      (''organicCarbon'', \<lparr>low = 1.0, optimal = 2.5, high = 3.5\<rparr>)]"

text \<open>
  Reading a field of the looked-up entry: a number for one of the script's own entries,
  \<open>undefined\<close> for a member of \<open>Object.prototype\<close>, and \<open>undefined\<close> converts to
  \<open>NaN\<close> wherever it is used as a number.
\<close>

fun read_field :: "('a \<Rightarrow> real) \<Rightarrow> 'a property \<Rightarrow> jsnum" where
  "read_field f (Own v) = Num (f v)"
| "read_field f _ = NaN"

text \<open>
  The three comparisons are those of the source, on exact values.  At the very edge of
  the optimal band the doubles can decide otherwise: for pH \<open>8.4\<close> the script compares
  \<open>1.4000000000000004\<close> with \<open>1.4000000000000001\<close> and answers \<open>Good\<close>, where the exact
  \<open>1.4 \<le> 1.4\<close> answers \<open>Optimal\<close>.
\<close>

definition getParameterStatus :: "string \<Rightarrow> real \<Rightarrow> string" where
  "getParameterStatus parameter v =
     (let entry = get_property ranges parameter in
      if entry = Undefined then ''Unknown''
      else
        let lo = read_field low entry; opt = read_field optimal entry;
            hi = read_field high entry in
        if js_lt (Num v) lo then ''Low''
        else if js_gt (Num v) hi then ''High''
        else if js_le (Math_abs (js_sub (Num v) opt)) (js_mul opt (Num 0.2)) then ''Optimal''
        else ''Good'')"

section \<open>Nutrient estimation\<close>

record modifier =
  n :: real
  p :: real
  k :: real

definition soilModifiers :: "(string \<times> modifier) list" where
  "soilModifiers =
     [(''clay'', \<lparr>n = 1.1, p = 0.9, k = 1.0\<rparr>),
      (''sandy'', \<lparr>n = 0.8, p = 1.1, k = 0.9\<rparr>),
      (''loam'', \<lparr>n = 1.0, p = 1.0, k = 1.0\<rparr>),
      (''silt'', \<lparr>n = 0.9, p = 1.0, k = 1.1\<rparr>),
      (''peat'', \<lparr>n = 1.2, p = 0.8, k = 0.8\<rparr>),
      (''chalk'', \<lparr>n = 0.7, p = 1.2, k = 0.9\<rparr>)]"

text \<open>
  \<open>soilModifiers[soilType] || soilModifiers.loam\<close>: the right operand is taken only when
  the left one is \<open>undefined\<close>; an entry of the table and a member of \<open>Object.prototype\<close>
  are both truthy.
\<close>

definition lookup_modifier :: "string \<Rightarrow> modifier property" where
  "lookup_modifier stype =
     (case get_property soilModifiers stype of
        Undefined \<Rightarrow> get_property soilModifiers ''loam''
      | found \<Rightarrow> found)"

definition calculateNitrogen :: "real \<Rightarrow> real \<Rightarrow> real \<Rightarrow> real \<Rightarrow> rng \<Rightarrow> real \<times> rng" where
  "calculateNitrogen ph temp moist oc g =
     (let base = oc * 15;
          pHFactor = 1 - \<bar>ph - 6.75\<bar> * 0.15;
          tempFactor = 1 - \<bar>temp - 25\<bar> * 0.02;
          moistureFactor = (if moist > 40 \<and> moist < 70 then 1.1 else 0.9);
          (r, g') = Math_random g
      in (base * pHFactor * tempFactor * moistureFactor + r * 10, g'))"

definition calculatePhosphorus :: "real \<Rightarrow> real \<Rightarrow> real \<Rightarrow> real \<Rightarrow> rng \<Rightarrow> real \<times> rng" where
  "calculatePhosphorus ph e oc temp g =
     (let base = oc * 8 + e * 10;
          pHFactor = (if ph < 7 then 1.2 else 1 - (ph - 7) * 0.1);
          tempFactor = (if temp > 20 then 1.1 else 0.9);
          (r, g') = Math_random g
      in (base * pHFactor * tempFactor + r * 15, g'))"

definition calculatePotassium :: "real \<Rightarrow> real \<Rightarrow> real \<Rightarrow> string \<Rightarrow> rng \<Rightarrow> real \<times> rng" where
  "calculatePotassium ph e moist stype g =
     (let base = e * 15 + moist * 0.5;
          pHFactor = (if ph > 6 \<and> ph < 8 then 1.1 else 0.9);
          typeFactor = (if stype = ''clay'' then 1.2 else 1.0);
          (r, g') = Math_random g
      in (base * pHFactor * typeFactor + r * 12, g'))"

section \<open>Indices, risks, suitability and recommendations\<close>

definition calculateSoilHealth :: "jsnum \<Rightarrow> jsnum \<Rightarrow> jsnum \<Rightarrow> real \<Rightarrow> real \<Rightarrow> jsnum" where
  "calculateSoilHealth nn pp kk ph oc =
     (let nutrientBalance = js_div_lit (js_add (js_add nn pp) kk) 3;
          pHScore = 100 - \<bar>ph - 6.8\<bar> * 10;
          organicScore = min (oc * 25) 100
      in js_add (js_add (js_mul nutrientBalance (Num 0.4)) (Num (pHScore * 0.3)))
                (Num (organicScore * 0.3)))"

definition calculateFertilityIndex :: "jsnum \<Rightarrow> jsnum \<Rightarrow> jsnum \<Rightarrow> jsnum" where
  "calculateFertilityIndex nn pp kk =
     js_add (js_add (js_mul nn (Num 0.4)) (js_mul pp (Num 0.35))) (js_mul kk (Num 0.25))"

text \<open>\<open>risks.join(', ')\<close> for a list of strings.\<close>

fun join :: "string \<Rightarrow> string list \<Rightarrow> string" where
  "join sep [] = []"
| "join sep [x] = x"
| "join sep (x # y # ys) = x @ sep @ join sep (y # ys)"

text \<open>The array \<open>risks\<close> after the six pushes, in the order of the source.\<close>

definition risks :: "soil_data \<Rightarrow> nutrients \<Rightarrow> string list" where
  "risks data nut =
     (if pH data < 5.5 then [''Soil acidity''] else []) @
     (if pH data > 8.5 then [''Soil alkalinity''] else []) @
     (if ec data > 2.5 then [''High salinity''] else []) @
     (if js_lt (nitrogen nut) (Num 30) then [''Nitrogen deficiency''] else []) @
     (if js_lt (phosphorus nut) (Num 25) then [''Phosphorus deficiency''] else []) @
     (if js_lt (potassium nut) (Num 35) then [''Potassium deficiency''] else [])"

definition assessRisks :: "soil_data \<Rightarrow> nutrients \<Rightarrow> string" where
  "assessRisks data nut =
     (let rs = risks data nut in
      if length rs > 0 then join '', '' rs else ''Low risk'')"

definition assessCropSuitability :: "jsnum \<Rightarrow> jsnum \<Rightarrow> string" where
  "assessCropSuitability sh fi =
     (let avgScore = js_div_lit (js_add sh fi) 2 in
      if js_ge avgScore (Num 80) then ''Excellent for all crops''
      else if js_ge avgScore (Num 65) then ''Good for most crops''
      else if js_ge avgScore (Num 50) then ''Suitable with amendments''
      else ''Requires significant improvement'')"

definition generateRecommendations :: "soil_data \<Rightarrow> nutrients \<Rightarrow> recommendation list" where
  "generateRecommendations data nut =
     (if pH data < 6.0 then
        [\<lparr>rec_type = ''pH Correction'', action = ''Apply lime to raise pH'',
          priority = ''High''\<rparr>]
      else if pH data > 8.0 then
        [\<lparr>rec_type = ''pH Correction'', action = ''Apply sulfur to lower pH'',
          priority = ''High''\<rparr>]
      else []) @
     (if js_lt (nitrogen nut) (Num 40) then
        [\<lparr>rec_type = ''Nitrogen'', action = ''Apply nitrogen fertilizer or compost'',
          priority = ''Medium''\<rparr>]
      else []) @
     (if js_lt (phosphorus nut) (Num 30) then
        [\<lparr>rec_type = ''Phosphorus'', action = ''Apply phosphate fertilizer'',
          priority = ''Medium''\<rparr>]
      else []) @
     (if js_lt (potassium nut) (Num 40) then
        [\<lparr>rec_type = ''Potassium'', action = ''Apply potash fertilizer'',
          priority = ''Medium''\<rparr>]
      else []) @
     (if organicCarbon data < 2.0 then
        [\<lparr>rec_type = ''Organic Matter'', action = ''Add compost or organic amendments'',
          priority = ''High''\<rparr>]
      else [])"

section \<open>The orchestrator (\<open>generatePredictions\<close>)\<close>

text \<open>\<open>Math.max(0, Math.min(100, x))\<close>.\<close>

definition clamp_0_100 :: "jsnum \<Rightarrow> jsnum" where
  "clamp_0_100 x = Math_max (Num 0) (Math_min (Num 100) x)"

text \<open>
  \<open>Math.round(x * 10) / 10\<close>.  On a value that exact arithmetic puts on a tie the
  script can round the other way: it computes \<open>16.5 * 0.7\<close> as \<open>11.549999999999999\<close>
  and reports \<open>11.5\<close>, where the exact \<open>11.55\<close> gives \<open>11.6\<close>.
\<close>

definition round1 :: "jsnum \<Rightarrow> jsnum" where
  "round1 x = js_div_lit (Math_round (js_mul x (Num 10))) 10"

text \<open>
  The first half of \<open>generatePredictions\<close>: the modifier lookup, the three estimates
  (each with its own draw, in this order) and their normalisation.  It returns the
  normalised estimates and the random source that is left.
\<close>

definition estimateNutrients :: "soil_data \<Rightarrow> rng \<Rightarrow> nutrients \<times> rng" where
  "estimateNutrients data g =
     (let modifier = lookup_modifier (soilType data);
          (cn, g1) = calculateNitrogen (pH data) (temperature data) (moisture data)
                       (organicCarbon data) g;
          nitrogen0 = js_mul (Num cn) (read_field n modifier);
          (cp, g2) = calculatePhosphorus (pH data) (ec data) (organicCarbon data)
                       (temperature data) g1;
          phosphorus0 = js_mul (Num cp) (read_field p modifier);
          (ck, g3) = calculatePotassium (pH data) (ec data) (moisture data)
                       (soilType data) g2;
          potassium0 = js_mul (Num ck) (read_field k modifier)
      in (\<lparr>nitrogen = clamp_0_100 nitrogen0, phosphorus = clamp_0_100 phosphorus0,
           potassium = clamp_0_100 potassium0\<rparr>, g3))"

text \<open>
  The second half: the derived metrics and the returned object.  The draw for the
  confidence comes after the three draws of the estimates.
\<close>

definition generatePredictions :: "soil_data \<Rightarrow> rng \<Rightarrow> prediction" where
  "generatePredictions data g =
     (let (nut, g3) = estimateNutrients data g;
          sh = calculateSoilHealth (nitrogen nut) (phosphorus nut) (potassium nut)
                 (pH data) (organicCarbon data);
          fi = calculateFertilityIndex (nitrogen nut) (phosphorus nut) (potassium nut);
          risk = assessRisks data nut;
          crop = assessCropSuitability sh fi;
          (r, g4) = Math_random g3
      in \<lparr>out_nitrogen = round1 (nitrogen nut),
          out_phosphorus = round1 (phosphorus nut),
          out_potassium = round1 (potassium nut),
          soilHealth = round1 sh,
          fertilityIndex = round1 fi,
          riskAssessment = risk,
          cropSuitability = crop,
          confidence = round1 (Num (85 + r * 15)),
          recommendations = generateRecommendations data nut\<rparr>)"

text \<open>The form's default record (\<open>collectFormData\<close> when every field is missing).\<close>

definition default_data :: soil_data where
  "default_data =
     \<lparr>pH = 6.5, temperature = 25, moisture = 50, ec = 1.2, organicCarbon = 2.2,
      soilType = ''loam''\<rparr>"

section \<open>Reference statements and inputs\<close>



text \<open>The number of recommendations of type \<open>pH Correction\<close> in a list.\<close>

definition count_pH_recommendations :: "recommendation list \<Rightarrow> nat" where
  "count_pH_recommendations rs = length (filter (\<lambda>r. rec_type r = ''pH Correction'') rs)"

text \<open>A record with an extreme pH and nothing for the nutrients to grow from.\<close>

definition extreme_pH_data :: soil_data where
  "extreme_pH_data =
     \<lparr>pH = 20, temperature = 25, moisture = 0, ec = 0, organicCarbon = 0,
      soilType = ''loam''\<rparr>"

text \<open>The default record with another soil type.\<close>

definition default_with_soil :: "string \<Rightarrow> soil_data" where
  "default_with_soil stype = default_data\<lparr>soilType := stype\<rparr>"

text \<open>
  Measurements of a magnitude at which no double-precision operation of the script
  overflows, so that each of its intermediate results is a finite number.
\<close>

definition within_magnitude :: "soil_data \<Rightarrow> bool" where
  "within_magnitude data =
     (\<bar>pH data\<bar> \<le> 10 ^ 50 \<and> \<bar>temperature data\<bar> \<le> 10 ^ 50 \<and> \<bar>moisture data\<bar> \<le> 10 ^ 50 \<and>
      \<bar>ec data\<bar> \<le> 10 ^ 50 \<and> \<bar>organicCarbon data\<bar> \<le> 10 ^ 50)"

definition sample_nutrients :: "real \<Rightarrow> real \<Rightarrow> real \<Rightarrow> nutrients" where
  "sample_nutrients a b c = \<lparr>nitrogen = Num a, phosphorus = Num b, potassium = Num c\<rparr>"

section \<open>Basic facts about the operations\<close>

lemmas js_arith_defs = js_add_def js_sub_def js_mul_def js_div_lit_def Math_min_def
  Math_max_def Math_abs_def Math_round_def

lemma clamp_Num: "clamp_0_100 (Num x) = Num (max 0 (min 100 x))"
  by (simp add: clamp_0_100_def js_arith_defs)

lemma clamp_NaN: "clamp_0_100 NaN = NaN"
  by (simp add: clamp_0_100_def js_arith_defs)

lemma round1_Num: "round1 (Num x) = Num (real_of_int \<lfloor>x * 10 + 1 / 2\<rfloor> / 10)"
  by (simp add: round1_def js_arith_defs round_half_up_def)

lemma round1_NaN: "round1 NaN = NaN"
  by (simp add: round1_def js_arith_defs)

lemma round_tenth_lower:
  "lo \<le> x \<Longrightarrow>
     real_of_int \<lfloor>lo * 10 + 1 / 2\<rfloor> / 10 \<le> real_of_int \<lfloor>x * 10 + 1 / 2\<rfloor> / 10"
  by (simp add: divide_right_mono floor_mono)

lemma round_tenth_0: "0 \<le> x \<Longrightarrow> 0 \<le> real_of_int \<lfloor>x * 10 + 1 / 2\<rfloor> / 10"
  using round_tenth_lower [of 0 x] by simp

lemma round_tenth_100: "x \<le> 100 \<Longrightarrow> real_of_int \<lfloor>x * 10 + 1 / 2\<rfloor> / 10 \<le> 100"
  using round_tenth_lower [of x 100] by simp

lemma round_tenth_near: "\<bar>real_of_int \<lfloor>x * 10 + 1 / 2\<rfloor> / 10 - x\<bar> \<le> 1 / 20"
proof -
  have "real_of_int \<lfloor>x * 10 + 1 / 2\<rfloor> \<le> x * 10 + 1 / 2"
    and "x * 10 + 1 / 2 < real_of_int \<lfloor>x * 10 + 1 / 2\<rfloor> + 1"
    by linarith+
  then show ?thesis by linarith
qed

lemma Math_random_eq: "Math_random g = (g 0, (\<lambda>i. g (Suc i)))"
  by (simp add: Math_random_def)

lemma lookup_modifier_inherited:
  "stype \<in> set Object_prototype_keys \<Longrightarrow> lookup_modifier stype = Inherited"
  by (auto simp add: lookup_modifier_def get_property_def soilModifiers_def
      Object_prototype_keys_def)

lemma draws_constant: "0 \<le> r \<Longrightarrow> r < 1 \<Longrightarrow> unit_draws (constant_rng r)"
  by (simp add: unit_draws_def constant_rng_def)

lemma snd_estimateNutrients: "snd (estimateNutrients data g) = (\<lambda>i. g (Suc (Suc (Suc i))))"
  by (simp add: estimateNutrients_def calculateNitrogen_def calculatePhosphorus_def
      calculatePotassium_def Math_random_eq Let_def)

lemma confidence_eq:
  "confidence (generatePredictions data g) = round1 (Num (85 + g 3 * 15))"
proof -
  obtain nut g3 where e: "estimateNutrients data g = (nut, g3)"
    by (cases "estimateNutrients data g")
  have "g3 = (\<lambda>i. g (Suc (Suc (Suc i))))"
    using snd_estimateNutrients [of data g] e by simp
  then show ?thesis
    by (simp add: generatePredictions_def e Math_random_eq Let_def numeral_3_eq_3)
qed

lemma confidence_value:
  "confidence (generatePredictions data g) =
     Num (real_of_int \<lfloor>(85 + g 3 * 15) * 10 + 1 / 2\<rfloor> / 10)"
  by (simp add: confidence_eq round1_Num)

lemma lookup_modifier_Own:
  assumes "stype \<notin> set Object_prototype_keys"
  shows "\<exists>m. lookup_modifier stype = Own m \<and>
     (n m, p m, k m) \<in> {(1.1, 0.9, 1.0), (0.8, 1.1, 0.9), (1.0, 1.0, 1.0),
                        (0.9, 1.0, 1.1), (1.2, 0.8, 0.8), (0.7, 1.2, 0.9)}"
  using assms by (auto simp add: lookup_modifier_def get_property_def soilModifiers_def)

lemma fst_estimateNutrients:
  "fst (estimateNutrients data g) =
     \<lparr>nitrogen = clamp_0_100 (js_mul
        (Num (fst (calculateNitrogen (pH data) (temperature data) (moisture data)
           (organicCarbon data) g)))
        (read_field n (lookup_modifier (soilType data)))),
      phosphorus = clamp_0_100 (js_mul
        (Num (fst (calculatePhosphorus (pH data) (ec data) (organicCarbon data)
           (temperature data) (\<lambda>i. g (Suc i)))))
        (read_field p (lookup_modifier (soilType data)))),
      potassium = clamp_0_100 (js_mul
        (Num (fst (calculatePotassium (pH data) (ec data) (moisture data) (soilType data)
           (\<lambda>i. g (Suc (Suc i))))))
        (read_field k (lookup_modifier (soilType data))))\<rparr>"
  by (simp add: estimateNutrients_def calculateNitrogen_def calculatePhosphorus_def
      calculatePotassium_def Math_random_eq Let_def)

lemma estimate_in_range:
  assumes "soilType data \<notin> set Object_prototype_keys"
  shows "\<exists>a b c. fst (estimateNutrients data g) =
            \<lparr>nitrogen = Num a, phosphorus = Num b, potassium = Num c\<rparr> \<and>
          0 \<le> a \<and> a \<le> 100 \<and> 0 \<le> b \<and> b \<le> 100 \<and> 0 \<le> c \<and> c \<le> 100"
proof -
  obtain m where m: "lookup_modifier (soilType data) = Own m"
    using lookup_modifier_Own [OF assms] by blast
  show ?thesis
    by (simp add: fst_estimateNutrients m js_mul_def clamp_Num)
qed

lemma estimate_inherited:
  assumes "soilType data \<in> set Object_prototype_keys"
  shows "fst (estimateNutrients data g) =
           \<lparr>nitrogen = NaN, phosphorus = NaN, potassium = NaN\<rparr>"
  by (simp add: fst_estimateNutrients lookup_modifier_inherited [OF assms] js_mul_def
      clamp_NaN)

lemma generatePredictions_fields:
  "out_nitrogen (generatePredictions data g) =
     round1 (nitrogen (fst (estimateNutrients data g)))"
  "out_phosphorus (generatePredictions data g) =
     round1 (phosphorus (fst (estimateNutrients data g)))"
  "out_potassium (generatePredictions data g) =
     round1 (potassium (fst (estimateNutrients data g)))"
  "soilHealth (generatePredictions data g) =
     round1 (calculateSoilHealth (nitrogen (fst (estimateNutrients data g)))
       (phosphorus (fst (estimateNutrients data g))) (potassium (fst (estimateNutrients data g)))
       (pH data) (organicCarbon data))"
  "fertilityIndex (generatePredictions data g) =
     round1 (calculateFertilityIndex (nitrogen (fst (estimateNutrients data g)))
       (phosphorus (fst (estimateNutrients data g))) (potassium (fst (estimateNutrients data g))))"
  "riskAssessment (generatePredictions data g) =
     assessRisks data (fst (estimateNutrients data g))"
  "cropSuitability (generatePredictions data g) =
     assessCropSuitability
      (calculateSoilHealth (nitrogen (fst (estimateNutrients data g)))
       (phosphorus (fst (estimateNutrients data g))) (potassium (fst (estimateNutrients data g)))
       (pH data) (organicCarbon data))
      (calculateFertilityIndex (nitrogen (fst (estimateNutrients data g)))
       (phosphorus (fst (estimateNutrients data g))) (potassium (fst (estimateNutrients data g))))"
  "recommendations (generatePredictions data g) =
     generateRecommendations data (fst (estimateNutrients data g))"
  by (simp_all add: generatePredictions_def split_beta Let_def)

lemma soilHealth_Num:
  "calculateSoilHealth (Num a) (Num b) (Num c) ph oc =
     Num ((a + b + c) / 3 * 0.4 + (100 - \<bar>ph - 6.8\<bar> * 10) * 0.3 + min (oc * 25) 100 * 0.3)"
  by (simp add: calculateSoilHealth_def js_arith_defs Let_def)

lemma fertility_Num:
  "calculateFertilityIndex (Num a) (Num b) (Num c) = Num (a * 0.4 + b * 0.35 + c * 0.25)"
  by (simp add: calculateFertilityIndex_def js_arith_defs)

lemmas estimate_defs = fst_estimateNutrients calculateNitrogen_def calculatePhosphorus_def
  calculatePotassium_def Math_random_eq lookup_modifier_def get_property_def soilModifiers_def
  Object_prototype_keys_def clamp_0_100_def round1_def round_half_up_def js_arith_defs
  constant_rng_def default_data_def default_with_soil_def extreme_pH_data_def Let_def

lemma valid_pH_scores:
  fixes ph oc :: real
  assumes "0 \<le> ph" "ph \<le> 14" "0 \<le> oc"
  shows "0 \<le> (100 - \<bar>ph - 6.8\<bar> * 10) + min (oc * 25) 100"
proof -
  have "\<bar>ph - 6.8\<bar> \<le> 10"
    using assms by (simp add: abs_le_iff)
  then have "\<bar>ph - 6.8\<bar> * 10 \<le> 100"
    by simp
  moreover have "0 \<le> min (oc * 25) 100"
    using assms by simp
  ultimately show ?thesis by linarith
qed

section \<open>The confidence value\<close>

text \<open>
  C8 (amended).  For every input record and every random source whose draws lie in
  \<open>[0, 1)\<close>, the confidence of the returned object lies in the closed interval
  \<open>[85, 100]\<close>.  The upper end is included: the rounding to one decimal place can
  reach 100 itself.
\<close>

theorem confidence_range:
  assumes "unit_draws g"
  shows "js_le (Num 85) (confidence (generatePredictions data g)) \<and>
         js_le (confidence (generatePredictions data g)) (Num 100)"
proof -
  let ?x = "(85 + g 3 * 15) * 10 + 1 / 2"
  have g: "0 \<le> g 3" "g 3 < 1"
    using assms by (simp_all add: unit_draws_def)
  have lo: "850 \<le> \<lfloor>?x\<rfloor>"
    using g by (simp add: le_floor_iff)
  have hi: "\<lfloor>?x\<rfloor> \<le> 1000"
    using g by (simp add: floor_le_iff)
  have "85 \<le> real_of_int \<lfloor>?x\<rfloor> / 10"
    using lo by (simp add: le_divide_eq)
  moreover have "real_of_int \<lfloor>?x\<rfloor> / 10 \<le> 100"
    using hi by (simp add: divide_le_eq)
  ultimately show ?thesis
    by (simp add: confidence_value)
qed

theorem confidence_range_witness:
  "unit_draws (constant_rng 0.5) \<and>
   confidence (generatePredictions default_data (constant_rng 0.5)) = Num 92.5 \<and>
   js_le (Num 85) (confidence (generatePredictions default_data (constant_rng 0.5))) \<and>
   js_le (confidence (generatePredictions default_data (constant_rng 0.5))) (Num 100)"
proof -
  have d: "unit_draws (constant_rng 0.5)"
    by (simp add: draws_constant)
  have v: "confidence (generatePredictions default_data (constant_rng 0.5)) = Num 92.5"
    by (simp add: confidence_value constant_rng_def)
  show ?thesis
    using d v confidence_range [OF d, of default_data] by (simp add: constant_rng_def)
qed

text \<open>
  With a draw of \<open>0.999\<close> the value before rounding is \<open>99.985\<close>, which rounds to
  \<open>100\<close>: the confidence is not strictly below 100.
\<close>

theorem confidence_reaches_100:
  "unit_draws (constant_rng 0.999) \<and>
   confidence (generatePredictions default_data (constant_rng 0.999)) = Num 100 \<and>
   \<not> js_lt (confidence (generatePredictions default_data (constant_rng 0.999))) (Num 100)"
proof -
  have d: "unit_draws (constant_rng 0.999)"
    by (simp add: draws_constant)
  have v: "confidence (generatePredictions default_data (constant_rng 0.999)) = Num 100"
    by (simp add: confidence_value constant_rng_def)
  show ?thesis
    using d v by simp
qed

section \<open>Soil health and fertility index\<close>

text \<open>
  C1 (amended).  For every input record whose soil type reaches a modifier of the table
  (one of the six types, or a name that falls back to loam) and whose measurements are
  within the magnitude above, and for every random source with draws in \<open>[0, 1)\<close>, the
  fertility index of the returned object lies in \<open>[0, 100]\<close> and the soil health is at
  most 100.  Nothing is floored at 0.  The soil health is non-negative whenever the pH
  score \<open>100 - 10\<cdot>|pH - 6.8|\<close> and the organic score \<open>min(25\<cdot>organicCarbon, 100)\<close> have a
  non-negative sum; by \<open>valid_pH_scores\<close> that is so for every pH in \<open>[0, 14]\<close> with a
  non-negative organic carbon.  This condition is sufficient, not necessary.
\<close>

theorem indices_range:
  assumes "soilType data \<notin> set Object_prototype_keys"
    and "within_magnitude data"
    and "unit_draws g"
  shows "js_le (Num 0) (fertilityIndex (generatePredictions data g)) \<and>
         js_le (fertilityIndex (generatePredictions data g)) (Num 100) \<and>
         js_le (soilHealth (generatePredictions data g)) (Num 100) \<and>
         (0 \<le> (100 - \<bar>pH data - 6.8\<bar> * 10) + min (organicCarbon data * 25) 100 \<longrightarrow>
            js_le (Num 0) (soilHealth (generatePredictions data g)))"
proof -
  obtain a b c where e: "fst (estimateNutrients data g) =
      \<lparr>nitrogen = Num a, phosphorus = Num b, potassium = Num c\<rparr>"
    and r: "0 \<le> a" "a \<le> 100" "0 \<le> b" "b \<le> 100" "0 \<le> c" "c \<le> 100"
    using estimate_in_range [OF assms(1), of g] by blast
  let ?f = "a * 0.4 + b * 0.35 + c * 0.25"
  let ?s = "100 - \<bar>pH data - 6.8\<bar> * 10"
  let ?o = "min (organicCarbon data * 25) 100"
  let ?h = "(a + b + c) / 3 * 0.4 + ?s * 0.3 + ?o * 0.3"
  have f: "0 \<le> ?f" "?f \<le> 100"
    using r by simp_all
  have s100: "?s \<le> 100" and o100: "?o \<le> 100"
    by simp_all
  have up: "(a + b + c) / 3 * 0.4 + s * 0.3 + t * 0.3 \<le> 100"
    if "s \<le> 100" "t \<le> 100" for s t :: real
    using r that by argo
  have down: "0 \<le> (a + b + c) / 3 * 0.4 + s * 0.3 + t * 0.3"
    if "0 \<le> s + t" for s t :: real
    using r that by argo
  have h100: "?h \<le> 100"
    using up [OF s100 o100] .
  have h0: "0 \<le> ?h" if "0 \<le> ?s + ?o"
    using down [OF that] .
  have fi: "fertilityIndex (generatePredictions data g) =
      Num (real_of_int \<lfloor>?f * 10 + 1 / 2\<rfloor> / 10)"
    by (simp only: generatePredictions_fields e nutrients.simps fertility_Num round1_Num)
  have sh: "soilHealth (generatePredictions data g) =
      Num (real_of_int \<lfloor>?h * 10 + 1 / 2\<rfloor> / 10)"
    by (simp only: generatePredictions_fields e nutrients.simps soilHealth_Num round1_Num)
  show ?thesis
    unfolding fi sh js_le.simps
    using round_tenth_0 [OF f(1)] round_tenth_100 [OF f(2)] round_tenth_100 [OF h100]
      round_tenth_0 [OF h0] by blast
qed

theorem indices_range_witness:
  "soilType default_data \<notin> set Object_prototype_keys \<and>
   within_magnitude default_data \<and>
   unit_draws (constant_rng 0.5) \<and>
   0 \<le> (100 - \<bar>pH default_data - 6.8\<bar> * 10) + min (organicCarbon default_data * 25) 100 \<and>
   soilHealth (generatePredictions default_data (constant_rng 0.5)) = Num 64.2 \<and>
   fertilityIndex (generatePredictions default_data (constant_rng 0.5)) = Num 45.6 \<and>
   js_le (Num 0) (soilHealth (generatePredictions default_data (constant_rng 0.5))) \<and>
   js_le (soilHealth (generatePredictions default_data (constant_rng 0.5))) (Num 100) \<and>
   js_le (Num 0) (fertilityIndex (generatePredictions default_data (constant_rng 0.5))) \<and>
   js_le (fertilityIndex (generatePredictions default_data (constant_rng 0.5))) (Num 100)"
proof -
  have t: "soilType default_data \<notin> set Object_prototype_keys"
    by (simp add: default_data_def Object_prototype_keys_def)
  have m: "within_magnitude default_data"
    by (simp add: within_magnitude_def default_data_def)
  have d: "unit_draws (constant_rng 0.5)"
    by (simp add: draws_constant)
  have c: "0 \<le> (100 - \<bar>pH default_data - 6.8\<bar> * 10) + min (organicCarbon default_data * 25) 100"
    by (simp add: default_data_def)
  have h: "soilHealth (generatePredictions default_data (constant_rng 0.5)) = Num 64.2"
    by (simp add: generatePredictions_fields calculateSoilHealth_def estimate_defs)
  have f: "fertilityIndex (generatePredictions default_data (constant_rng 0.5)) = Num 45.6"
    by (simp add: generatePredictions_fields calculateFertilityIndex_def estimate_defs)
  show ?thesis
    using t m d c h f indices_range [OF t m d] by simp
qed

text \<open>
  At pH 20 and 25 degrees, with no organic carbon, no moisture, no conductivity, soil
  type loam and draws of 0, the three nutrients are 0 and the soil health is
  \<open>0.3 \<cdot> (100 - 132) = -9.6\<close>: it is returned as it is.
\<close>

theorem soilHealth_negative:
  "unit_draws (constant_rng 0) \<and>
   pH extreme_pH_data = 20 \<and>
   soilHealth (generatePredictions extreme_pH_data (constant_rng 0)) = Num (- 9.6) \<and>
   \<not> js_le (Num 0) (soilHealth (generatePredictions extreme_pH_data (constant_rng 0)))"
proof -
  have d: "unit_draws (constant_rng 0)"
    by (simp add: draws_constant)
  have h: "soilHealth (generatePredictions extreme_pH_data (constant_rng 0)) = Num (- 9.6)"
    by (simp add: generatePredictions_fields calculateSoilHealth_def estimate_defs)
  show ?thesis
    using d h by (simp add: extreme_pH_data_def)
qed

section \<open>Range of the nutrient outputs\<close>

text \<open>
  The normalisation keeps every nutrient output in \<open>[0, 100]\<close>, also after the rounding,
  for each soil type that reaches a modifier of the table, measurements within the
  magnitude above and draws in \<open>[0, 1)\<close>.
\<close>

lemma nutrient_outputs_range:
  assumes "soilType data \<notin> set Object_prototype_keys"
    and "within_magnitude data"
    and "unit_draws g"
  shows "js_le (Num 0) (out_nitrogen (generatePredictions data g)) \<and>
         js_le (out_nitrogen (generatePredictions data g)) (Num 100) \<and>
         js_le (Num 0) (out_phosphorus (generatePredictions data g)) \<and>
         js_le (out_phosphorus (generatePredictions data g)) (Num 100) \<and>
         js_le (Num 0) (out_potassium (generatePredictions data g)) \<and>
         js_le (out_potassium (generatePredictions data g)) (Num 100)"
proof -
  obtain a b c where e: "fst (estimateNutrients data g) =
      \<lparr>nitrogen = Num a, phosphorus = Num b, potassium = Num c\<rparr>"
    and r: "0 \<le> a" "a \<le> 100" "0 \<le> b" "b \<le> 100" "0 \<le> c" "c \<le> 100"
    using estimate_in_range [OF assms(1), of g] by blast
  show ?thesis
    using r by (simp add: generatePredictions_fields e round1_Num round_tenth_0 round_tenth_100)
qed

text \<open>
  C2.  Each nutrient output of \<open>generatePredictions\<close> should lie in \<open>[0, 100]\<close> for
  every input record.  For the soil type \<open>toString\<close> the table lookup finds the method
  inherited from \<open>Object.prototype\<close>, the fallback to loam is not taken, the modifier
  components are \<open>undefined\<close>, and the three outputs are \<open>NaN\<close>, which
  \<open>Math.max\<close> and \<open>Math.min\<close> pass through: they are neither at least 0 nor at
  most 100.
\<close>

theorem nutrient_outputs_prototype_name:
  "unit_draws (constant_rng 0.5) \<and>
   out_nitrogen (generatePredictions (default_with_soil ''toString'') (constant_rng 0.5)) = NaN \<and>
   out_phosphorus (generatePredictions (default_with_soil ''toString'') (constant_rng 0.5)) = NaN \<and>
   out_potassium (generatePredictions (default_with_soil ''toString'') (constant_rng 0.5)) = NaN \<and>
   \<not> js_le (Num 0) (out_nitrogen (generatePredictions (default_with_soil ''toString'') (constant_rng 0.5))) \<and>
   \<not> js_le (out_nitrogen (generatePredictions (default_with_soil ''toString'') (constant_rng 0.5))) (Num 100)"
proof -
  have t: "soilType (default_with_soil ''toString'') \<in> set Object_prototype_keys"
    by (simp add: default_with_soil_def Object_prototype_keys_def)
  show ?thesis
    by (simp add: draws_constant generatePredictions_fields estimate_inherited [OF t] round1_NaN)
qed

section \<open>The nitrogen estimate\<close>

lemma n_modifier_table:
  "read_field n (lookup_modifier ''clay'') = Num 1.1"
  "read_field n (lookup_modifier ''sandy'') = Num 0.8"
  "read_field n (lookup_modifier ''loam'') = Num 1.0"
  "read_field n (lookup_modifier ''silt'') = Num 0.9"
  "read_field n (lookup_modifier ''peat'') = Num 1.2"
  "read_field n (lookup_modifier ''chalk'') = Num 0.7"
  by (simp_all add: lookup_modifier_def get_property_def soilModifiers_def)

text \<open>
  Whenever the looked-up modifier has a numeric \<open>n\<close> component \<open>m\<close>, the reported
  nitrogen is a multiple of \<open>0.1\<close> at most \<open>0.05\<close> away from
  \<open>max(0, min(100, (base + noise) \<cdot> m))\<close>, where \<open>base\<close> is
  \<open>organicCarbon \<cdot> 15 \<cdot> (1 - 0.15\<cdot>|pH - 6.75|) \<cdot> (1 - 0.02\<cdot>|temp - 25|) \<cdot> (1.1 if 40 < moisture < 70 else 0.9)\<close>
  and \<open>noise\<close>, ten times the first draw, lies in \<open>[0, 10)\<close>.  The statement is about
  exact arithmetic and does not say which way a tie is rounded.
\<close>

lemma nitrogen_formula_numeric:
  assumes "unit_draws g"
    and "read_field n (lookup_modifier (soilType data)) = Num m"
  shows "\<exists>v i. out_nitrogen (generatePredictions data g) = Num v \<and>
           v = real_of_int i / 10 \<and>
           \<bar>v - max 0 (min 100
                 ((organicCarbon data * 15 * (1 - 0.15 * \<bar>pH data - 6.75\<bar>)
                     * (1 - 0.02 * \<bar>temperature data - 25\<bar>)
                     * (if 40 < moisture data \<and> moisture data < 70 then 1.1 else 0.9)
                   + g 0 * 10) * m))\<bar> \<le> 1 / 20 \<and>
           0 \<le> g 0 * 10 \<and> g 0 * 10 < 10"
proof -
  let ?pre = "(organicCarbon data * 15 * (1 - 0.15 * \<bar>pH data - 6.75\<bar>)
                 * (1 - 0.02 * \<bar>temperature data - 25\<bar>)
                 * (if 40 < moisture data \<and> moisture data < 70 then 1.1 else 0.9)
               + g 0 * 10) * m"
  let ?c = "max 0 (min 100 ?pre)"
  have "0 \<le> g 0" "g 0 < 1"
    using assms(1) by (simp_all add: unit_draws_def)
  then have noise: "0 \<le> g 0 * 10" "g 0 * 10 < 10"
    by simp_all
  have cn: "fst (calculateNitrogen (pH data) (temperature data) (moisture data)
            (organicCarbon data) g) =
        organicCarbon data * 15 * (1 - 0.15 * \<bar>pH data - 6.75\<bar>)
          * (1 - 0.02 * \<bar>temperature data - 25\<bar>)
          * (if 40 < moisture data \<and> moisture data < 70 then 1.1 else 0.9)
        + g 0 * 10"
    by (simp add: calculateNitrogen_def Math_random_eq Let_def mult.commute)
  have "nitrogen (fst (estimateNutrients data g)) = Num ?c"
    by (simp only: fst_estimateNutrients nutrients.simps cn assms(2) js_mul_def
        js_lift2.simps clamp_Num)
  then have out: "out_nitrogen (generatePredictions data g) =
      Num (real_of_int \<lfloor>?c * 10 + 1 / 2\<rfloor> / 10)"
    by (simp only: generatePredictions_fields round1_Num)
  show ?thesis
    using out round_tenth_near [of ?c] noise by blast
qed

text \<open>
  C3.  The reported nitrogen should be the base formula plus noise, multiplied by the
  \<open>n\<close> modifier of the soil type (loam's \<open>1.0\<close> for a type outside the table), normalised
  to \<open>[0, 100]\<close> and rounded to one decimal place, for every input record.  For the
  default record and a draw of \<open>0.5\<close> that is \<open>(34.93875 + 5) \<cdot> 1.0\<close>, reported as
  \<open>39.9\<close>, and soil type loam does give it.  The soil type \<open>valueOf\<close> is outside the
  table, yet the lookup finds the method inherited from \<open>Object.prototype\<close>; its \<open>n\<close> is
  \<open>undefined\<close>, the product is \<open>NaN\<close>, and \<open>NaN\<close> is what is reported.
\<close>

theorem nitrogen_of_prototype_name:
  "unit_draws (constant_rng 0.5) \<and>
   ''valueOf'' \<notin> set (map fst soilModifiers) \<and>
   read_field n (lookup_modifier (soilType (default_with_soil ''valueOf''))) = NaN \<and>
   out_nitrogen (generatePredictions (default_with_soil ''valueOf'') (constant_rng 0.5)) = NaN \<and>
   out_nitrogen (generatePredictions (default_with_soil ''loam'') (constant_rng 0.5)) = Num 39.9"
proof -
  have d: "unit_draws (constant_rng 0.5)"
    by (simp add: draws_constant)
  have a: "''valueOf'' \<notin> set (map fst soilModifiers)"
    by (simp add: soilModifiers_def)
  have t: "soilType (default_with_soil ''valueOf'') \<in> set Object_prototype_keys"
    by (simp add: default_with_soil_def Object_prototype_keys_def)
  have m: "read_field n (lookup_modifier (soilType (default_with_soil ''valueOf''))) = NaN"
    by (simp add: lookup_modifier_inherited [OF t])
  have v: "out_nitrogen (generatePredictions (default_with_soil ''valueOf'') (constant_rng 0.5)) = NaN"
    by (simp add: generatePredictions_fields estimate_inherited [OF t] round1_NaN)
  have l: "out_nitrogen (generatePredictions (default_with_soil ''loam'') (constant_rng 0.5)) = Num 39.9"
    by (simp add: generatePredictions_fields estimate_defs)
  show ?thesis
    using d a m v l by simp
qed

section \<open>Unrecognised soil types\<close>

text \<open>
  A soil type that is neither a key of the table nor a member of \<open>Object.prototype\<close>
  gets the modifier of loam, and the whole prediction is the one for loam.
\<close>

lemma lookup_modifier_unrecognised:
  assumes "stype \<notin> set (map fst soilModifiers)" "stype \<notin> set Object_prototype_keys"
  shows "lookup_modifier stype = Own \<lparr>n = 1.0, p = 1.0, k = 1.0\<rparr>"
  using assms by (auto simp add: lookup_modifier_def get_property_def soilModifiers_def)

lemma lookup_modifier_loam: "lookup_modifier ''loam'' = Own \<lparr>n = 1.0, p = 1.0, k = 1.0\<rparr>"
  by (simp add: lookup_modifier_def get_property_def soilModifiers_def)

lemma estimate_unrecognised:
  assumes "stype \<notin> set (map fst soilModifiers)" "stype \<notin> set Object_prototype_keys"
  shows "estimateNutrients (data\<lparr>soilType := stype\<rparr>) g =
         estimateNutrients (data\<lparr>soilType := ''loam''\<rparr>) g"
proof -
  have "stype \<noteq> ''clay''"
    using assms(1) by (auto simp add: soilModifiers_def)
  then show ?thesis
    by (simp add: estimateNutrients_def calculatePotassium_def
        lookup_modifier_unrecognised [OF assms] lookup_modifier_loam)
qed

lemma unrecognised_as_loam:
  assumes "stype \<notin> set (map fst soilModifiers)" "stype \<notin> set Object_prototype_keys"
  shows "generatePredictions (data\<lparr>soilType := stype\<rparr>) g =
         generatePredictions (data\<lparr>soilType := ''loam''\<rparr>) g"
  by (simp add: generatePredictions_def estimate_unrecognised [OF assms] assessRisks_def
      risks_def generateRecommendations_def)

text \<open>
  C9.  Every soil type outside the six of the table should get the modifiers of loam.
  The soil type \<open>constructor\<close> is outside the six, yet the lookup finds the member
  inherited from \<open>Object.prototype\<close>, the fallback is skipped, and the three estimates
  are \<open>NaN\<close> where loam gives \<open>39.93875\<close>, \<open>46.572\<close> and \<open>53.3\<close> for the same draws.
\<close>

theorem prototype_name_not_loam:
  "''constructor'' \<notin> set (map fst soilModifiers) \<and>
   fst (estimateNutrients (default_with_soil ''constructor'') (constant_rng 0.5)) =
     \<lparr>nitrogen = NaN, phosphorus = NaN, potassium = NaN\<rparr> \<and>
   fst (estimateNutrients (default_with_soil ''loam'') (constant_rng 0.5)) =
     \<lparr>nitrogen = Num 39.93875, phosphorus = Num 46.572, potassium = Num 53.3\<rparr>"
proof -
  have a: "''constructor'' \<notin> set (map fst soilModifiers)"
    by (simp add: soilModifiers_def)
  have t: "soilType (default_with_soil ''constructor'') \<in> set Object_prototype_keys"
    by (simp add: default_with_soil_def Object_prototype_keys_def)
  have l: "fst (estimateNutrients (default_with_soil ''loam'') (constant_rng 0.5)) =
     \<lparr>nitrogen = Num 39.93875, phosphorus = Num 46.572, potassium = Num 53.3\<rparr>"
    by (simp add: estimate_defs)
  show ?thesis
    using a l by (simp add: estimate_inherited [OF t])
qed

section \<open>Parameter status\<close>

text \<open>
  For the five parameters of the table the status follows the band rule, and a name
  that is neither in the table nor a member of \<open>Object.prototype\<close> is \<open>Unknown\<close>.
\<close>

lemma status_of_band:
  assumes "map_of ranges parameter = Some b"
  shows "getParameterStatus parameter v =
     (if v < low b then ''Low''
      else if v > high b then ''High''
      else if \<bar>v - optimal b\<bar> \<le> 0.2 * optimal b then ''Optimal''
      else ''Good'')"
  using assms by (simp add: getParameterStatus_def get_property_def js_arith_defs mult.commute)

lemma status_bands:
  "getParameterStatus ''pH'' v =
     (if v < 5.5 then ''Low'' else if v > 8.5 then ''High''
      else if \<bar>v - 7.0\<bar> \<le> 0.2 * 7.0 then ''Optimal'' else ''Good'')"
  "getParameterStatus ''temperature'' v =
     (if v < 18 then ''Low'' else if v > 30 then ''High''
      else if \<bar>v - 25\<bar> \<le> 0.2 * 25 then ''Optimal'' else ''Good'')"
  "getParameterStatus ''moisture'' v =
     (if v < 30 then ''Low'' else if v > 70 then ''High''
      else if \<bar>v - 50\<bar> \<le> 0.2 * 50 then ''Optimal'' else ''Good'')"
  "getParameterStatus ''ec'' v =
     (if v < 0.5 then ''Low'' else if v > 2.0 then ''High''
      else if \<bar>v - 1.2\<bar> \<le> 0.2 * 1.2 then ''Optimal'' else ''Good'')"
  "getParameterStatus ''organicCarbon'' v =
     (if v < 1.0 then ''Low'' else if v > 3.5 then ''High''
      else if \<bar>v - 2.5\<bar> \<le> 0.2 * 2.5 then ''Optimal'' else ''Good'')"
  by (simp_all add: status_of_band ranges_def)

lemma status_examples:
  "getParameterStatus ''pH'' 7.0 = ''Optimal''"
  "getParameterStatus ''pH'' 4.0 = ''Low''"
  "getParameterStatus ''pH'' 12.0 = ''High''"
  "getParameterStatus ''unknown'' 5 = ''Unknown''"
  by (simp_all add: getParameterStatus_def get_property_def ranges_def
      Object_prototype_keys_def js_arith_defs)

lemma status_unknown:
  assumes "parameter \<notin> set (map fst ranges)" "parameter \<notin> set Object_prototype_keys"
  shows "getParameterStatus parameter v = ''Unknown''"
proof -
  have "map_of ranges parameter = None"
    using assms(1) by (simp add: map_of_eq_None_iff)
  then show ?thesis
    using assms(2) by (simp add: getParameterStatus_def get_property_def)
qed

lemma status_inherited:
  assumes "parameter \<in> set Object_prototype_keys"
  shows "getParameterStatus parameter v = ''Good''"
proof -
  have "map_of ranges parameter = None"
    using assms by (auto simp add: ranges_def Object_prototype_keys_def)
  then show ?thesis
    using assms by (simp add: getParameterStatus_def get_property_def js_arith_defs)
qed

text \<open>
  C4.  The status should be \<open>Unknown\<close> for every parameter name outside the table.
  For the name \<open>toString\<close> the lookup finds the inherited method, which is truthy, so
  the \<open>Unknown\<close> branch is skipped; its \<open>low\<close>, \<open>optimal\<close> and \<open>high\<close> are
  \<open>undefined\<close>, the three comparisons are false, and the status is \<open>Good\<close>.
\<close>

theorem status_of_prototype_name:
  "''toString'' \<notin> set (map fst ranges) \<and>
   getParameterStatus ''toString'' 5 = ''Good'' \<and>
   getParameterStatus ''toString'' 5 \<noteq> ''Unknown''"
proof -
  have "''toString'' \<in> set Object_prototype_keys"
    by (simp add: Object_prototype_keys_def)
  then show ?thesis
    by (simp add: status_inherited ranges_def)
qed

section \<open>Risk assessment\<close>









section \<open>Recommendations for the pH\<close>

text \<open>
  C6.  For every input record and nutrient estimate, the recommendations never contain
  both the lime and the sulfur action.  Below pH 6.0 there is exactly one pH
  recommendation, the lime one; above pH 8.0 exactly one, the sulfur one; for a pH within
  \<open>[6.0, 8.0]\<close> there is none.
\<close>

theorem pH_recommendation_exclusive:
  "\<not> (''Apply lime to raise pH'' \<in> set (map action (generateRecommendations data nut)) \<and>
      ''Apply sulfur to lower pH'' \<in> set (map action (generateRecommendations data nut))) \<and>
   (pH data < 6.0 \<longrightarrow>
      ''Apply lime to raise pH'' \<in> set (map action (generateRecommendations data nut)) \<and>
      ''Apply sulfur to lower pH'' \<notin> set (map action (generateRecommendations data nut)) \<and>
      count_pH_recommendations (generateRecommendations data nut) = 1) \<and>
   (pH data > 8.0 \<longrightarrow>
      ''Apply sulfur to lower pH'' \<in> set (map action (generateRecommendations data nut)) \<and>
      ''Apply lime to raise pH'' \<notin> set (map action (generateRecommendations data nut)) \<and>
      count_pH_recommendations (generateRecommendations data nut) = 1) \<and>
   (6.0 \<le> pH data \<and> pH data \<le> 8.0 \<longrightarrow>
      ''Apply lime to raise pH'' \<notin> set (map action (generateRecommendations data nut)) \<and>
      ''Apply sulfur to lower pH'' \<notin> set (map action (generateRecommendations data nut)) \<and>
      count_pH_recommendations (generateRecommendations data nut) = 0)"
  by (auto simp add: generateRecommendations_def count_pH_recommendations_def)

theorem pH_recommendation_exclusive_witness:
  "pH (default_data\<lparr>pH := 5\<rparr>) < 6.0 \<and>
   map action (generateRecommendations (default_data\<lparr>pH := 5\<rparr>) (sample_nutrients 50 50 50)) =
     [''Apply lime to raise pH''] \<and>
   count_pH_recommendations
     (generateRecommendations (default_data\<lparr>pH := 5\<rparr>) (sample_nutrients 50 50 50)) = 1 \<and>
   pH extreme_pH_data > 8.0 \<and>
   map action (generateRecommendations extreme_pH_data (sample_nutrients 50 50 50)) =
     [''Apply sulfur to lower pH'', ''Add compost or organic amendments''] \<and>
   count_pH_recommendations
     (generateRecommendations extreme_pH_data (sample_nutrients 50 50 50)) = 1 \<and>
   6.0 \<le> pH default_data \<and> pH default_data \<le> 8.0 \<and>
   map action (generateRecommendations default_data (sample_nutrients 50 50 50)) = [] \<and>
   count_pH_recommendations
     (generateRecommendations default_data (sample_nutrients 50 50 50)) = 0"
proof -
  have a: "pH (default_data\<lparr>pH := 5\<rparr>) < 6.0" "pH extreme_pH_data > 8.0"
    "6.0 \<le> pH default_data \<and> pH default_data \<le> 8.0"
    by (simp_all add: default_data_def extreme_pH_data_def)
  have l: "map action (generateRecommendations (default_data\<lparr>pH := 5\<rparr>)
      (sample_nutrients 50 50 50)) = [''Apply lime to raise pH'']"
    by (simp add: generateRecommendations_def default_data_def sample_nutrients_def)
  have s: "map action (generateRecommendations extreme_pH_data (sample_nutrients 50 50 50)) =
     [''Apply sulfur to lower pH'', ''Add compost or organic amendments'']"
    by (simp add: generateRecommendations_def extreme_pH_data_def sample_nutrients_def)
  have e: "map action (generateRecommendations default_data (sample_nutrients 50 50 50)) = []"
    by (simp add: generateRecommendations_def default_data_def sample_nutrients_def)
  show ?thesis
    using a l s e
      pH_recommendation_exclusive [of "default_data\<lparr>pH := 5\<rparr>" "sample_nutrients 50 50 50"]
      pH_recommendation_exclusive [of extreme_pH_data "sample_nutrients 50 50 50"]
      pH_recommendation_exclusive [of default_data "sample_nutrients 50 50 50"]
    by simp
qed

section \<open>Crop suitability\<close>

lemma crop_Num:
  "assessCropSuitability (Num s) (Num f) =
     (if (s + f) / 2 \<ge> 80 then ''Excellent for all crops''
      else if (s + f) / 2 \<ge> 65 then ''Good for most crops''
      else if (s + f) / 2 \<ge> 50 then ''Suitable with amendments''
      else ''Requires significant improvement'')"
  by (simp add: assessCropSuitability_def js_arith_defs Let_def)

text \<open>
  C7.  For every pair of scores, with \<open>avg = (soilHealth + fertilityIndex) / 2\<close>: the
  suitability is \<open>Excellent for all crops\<close> when \<open>avg \<ge> 80\<close>, \<open>Good for most crops\<close>
  when \<open>65 \<le> avg < 80\<close>, \<open>Suitable with amendments\<close> when \<open>50 \<le> avg < 65\<close> and
  \<open>Requires significant improvement\<close> below 50; each lower bound is inclusive.
\<close>

theorem crop_suitability_bands:
  "(80 \<le> (s + f) / 2 \<longrightarrow>
      assessCropSuitability (Num s) (Num f) = ''Excellent for all crops'') \<and>
   (65 \<le> (s + f) / 2 \<and> (s + f) / 2 < 80 \<longrightarrow>
      assessCropSuitability (Num s) (Num f) = ''Good for most crops'') \<and>
   (50 \<le> (s + f) / 2 \<and> (s + f) / 2 < 65 \<longrightarrow>
      assessCropSuitability (Num s) (Num f) = ''Suitable with amendments'') \<and>
   ((s + f) / 2 < 50 \<longrightarrow>
      assessCropSuitability (Num s) (Num f) = ''Requires significant improvement'')"
  unfolding crop_Num by auto

theorem crop_suitability_bands_witness:
  "(80::real) \<le> (90 + 70) / 2 \<and>
   assessCropSuitability (Num 90) (Num 70) = ''Excellent for all crops'' \<and>
   (65::real) \<le> (79.999 + 79.999) / 2 \<and> ((79.999 + 79.999) / 2 :: real) < 80 \<and>
   assessCropSuitability (Num 79.999) (Num 79.999) = ''Good for most crops'' \<and>
   (50::real) \<le> (64.2 + 45.6) / 2 \<and> ((64.2 + 45.6) / 2 :: real) < 65 \<and>
   assessCropSuitability (Num 64.2) (Num 45.6) = ''Suitable with amendments'' \<and>
   ((- 9.6 + 0) / 2 :: real) < 50 \<and>
   assessCropSuitability (Num (- 9.6)) (Num 0) = ''Requires significant improvement''"
  using crop_suitability_bands [of 90 70] crop_suitability_bands [of "79.999" "79.999"]
    crop_suitability_bands [of "64.2" "45.6"] crop_suitability_bands [of "- 9.6" 0]
  by simp

section \<open>What depends on the random source\<close>

lemma estimate_draws:
  assumes "g1 0 = g2 0" "g1 1 = g2 1" "g1 2 = g2 2"
  shows "fst (estimateNutrients data g1) = fst (estimateNutrients data g2)"
  using assms
  by (simp add: fst_estimateNutrients calculateNitrogen_def calculatePhosphorus_def
      calculatePotassium_def Math_random_eq Let_def numeral_2_eq_2)

lemma noise_reaches_outputs:
  "out_nitrogen (generatePredictions default_data (constant_rng 0)) = Num 34.9"
  "out_nitrogen (generatePredictions default_data (constant_rng 0.5)) = Num 39.9"
  "confidence (generatePredictions default_data (constant_rng 0)) = Num 85"
  "confidence (generatePredictions default_data (constant_rng 0.5)) = Num 92.5"
  by (simp_all add: generatePredictions_fields estimate_defs confidence_value)

text \<open>
  C10.  The risk assessment, the recommendations, the soil health, the fertility index
  and the crop suitability are functions of the input record and the nutrient estimates
  alone: two runs on the same record whose random sources lead to the same estimates
  agree on all five, whatever else the sources draw.  The random source reaches the
  result only through the estimates and the confidence (\<open>noise_reaches_outputs\<close>).
\<close>

theorem derived_fields_deterministic:
  assumes "fst (estimateNutrients data g1) = fst (estimateNutrients data g2)"
  shows "soilHealth (generatePredictions data g1) = soilHealth (generatePredictions data g2) \<and>
         fertilityIndex (generatePredictions data g1) =
           fertilityIndex (generatePredictions data g2) \<and>
         riskAssessment (generatePredictions data g1) =
           riskAssessment (generatePredictions data g2) \<and>
         cropSuitability (generatePredictions data g1) =
           cropSuitability (generatePredictions data g2) \<and>
         recommendations (generatePredictions data g1) =
           recommendations (generatePredictions data g2)"
  by (simp add: generatePredictions_fields assms)

theorem derived_fields_deterministic_witness:
  "fst (estimateNutrients default_data (constant_rng 0.5)) =
     fst (estimateNutrients default_data (rng_with 0.5 3 0.25)) \<and>
   confidence (generatePredictions default_data (constant_rng 0.5)) = Num 92.5 \<and>
   confidence (generatePredictions default_data (rng_with 0.5 3 0.25)) = Num 88.8 \<and>
   soilHealth (generatePredictions default_data (rng_with 0.5 3 0.25)) = Num 64.2 \<and>
   fertilityIndex (generatePredictions default_data (rng_with 0.5 3 0.25)) = Num 45.6 \<and>
   riskAssessment (generatePredictions default_data (rng_with 0.5 3 0.25)) = ''Low risk'' \<and>
   cropSuitability (generatePredictions default_data (rng_with 0.5 3 0.25)) =
     ''Suitable with amendments'' \<and>
   map action (recommendations (generatePredictions default_data (rng_with 0.5 3 0.25))) =
     [''Apply nitrogen fertilizer or compost'']"
proof -
  have e: "fst (estimateNutrients default_data (constant_rng 0.5)) =
     fst (estimateNutrients default_data (rng_with 0.5 3 0.25))"
    by (rule estimate_draws) (simp_all add: constant_rng_def rng_with_def)
  have n: "fst (estimateNutrients default_data (constant_rng 0.5)) =
     \<lparr>nitrogen = Num 39.93875, phosphorus = Num 46.572, potassium = Num 53.3\<rparr>"
    by (simp add: estimate_defs)
  have c: "confidence (generatePredictions default_data (constant_rng 0.5)) = Num 92.5"
    "confidence (generatePredictions default_data (rng_with 0.5 3 0.25)) = Num 88.8"
    by (simp_all add: confidence_value constant_rng_def rng_with_def)
  have h: "soilHealth (generatePredictions default_data (constant_rng 0.5)) = Num 64.2"
    unfolding generatePredictions_fields n
    by (simp add: soilHealth_Num round1_Num default_data_def)
  have f: "fertilityIndex (generatePredictions default_data (constant_rng 0.5)) = Num 45.6"
    unfolding generatePredictions_fields n
    by (simp add: fertility_Num round1_Num)
  have r: "riskAssessment (generatePredictions default_data (constant_rng 0.5)) = ''Low risk''"
    unfolding generatePredictions_fields n
    by (simp add: assessRisks_def risks_def default_data_def)
  have s: "cropSuitability (generatePredictions default_data (constant_rng 0.5)) =
      ''Suitable with amendments''"
    unfolding generatePredictions_fields n
    by (simp add: soilHealth_Num fertility_Num crop_Num default_data_def)
  have a: "map action (recommendations (generatePredictions default_data (constant_rng 0.5))) =
      [''Apply nitrogen fertilizer or compost'']"
    unfolding generatePredictions_fields n
    by (simp add: generateRecommendations_def default_data_def)
  show ?thesis
    using e c h f r s a derived_fields_deterministic [OF e]
    by simp
qed

end
